theory Spec2Isabelle
  imports Complex_Main
begin

section \<open>Values exchanged with the service\<close>

text \<open>
  The client of \<^verbatim>\<open>fastfuels_sdk/treelists.py\<close> only ever sees what
  \<^verbatim>\<open>response.json()\<close> hands back: a decoded JSON value. An object is kept as an
  association list in the order of the document; a decoded Python dict has pairwise
  distinct keys.
\<close>

datatype json =
    JNull
  | JBool bool
  | JInt int
  | JFloat real
  | JStr string
  | JArr "json list"
  | JObj "(string \<times> json) list"

text \<open>
  The exceptions that the module raises itself (\<^verbatim>\<open>ValueError\<close>, \<^verbatim>\<open>HTTPError\<close>)
  and those that the interpreter raises inside it: \<^verbatim>\<open>TypeError\<close> for a call whose keyword
  arguments do not fit the signature or for a misuse of a value, \<^verbatim>\<open>KeyError\<close> for a
  missing dict key, \<^verbatim>\<open>AttributeError\<close> for a method looked up on \<^verbatim>\<open>None\<close>.
\<close>

datatype error =
    ValueError string
  | TypeError
  | KeyError string
  | AttributeError
  | HTTPError json

text \<open>
  The value of \<^verbatim>\<open>datetime.fromisoformat\<close>. The parser belongs to the standard library,
  so the model takes it as a parameter of type \<open>string \<Rightarrow> datetime option\<close>, with
  \<open>None\<close> for the text it rejects.
\<close>

record datetime =
  year :: nat
  month :: nat
  day :: nat
  hour :: nat
  minute :: nat
  second :: nat
  microsecond :: nat

section \<open>The Treelist class\<close>

text \<open>
  The attributes of \<^verbatim>\<open>Treelist\<close>, each prefixed with \<open>tl_\<close>. The constructor
  stores nine of its arguments unchanged, whatever their type, so these fields hold JSON values;
  only \<^verbatim>\<open>created_on\<close> is converted.
\<close>

record Treelist =
  tl_id :: json
  tl_name :: json
  tl_description :: json
  tl_method :: json
  tl_dataset_id :: json
  tl_status :: json
  tl_created_on :: datetime
  tl_summary :: json
  tl_fuelgrids :: json
  tl_version :: json

text \<open>
  \<^verbatim>\<open>Treelist.__init__\<close>: \<^verbatim>\<open>datetime.fromisoformat\<close> raises \<^verbatim>\<open>TypeError\<close> on an
  argument that is not a string and \<^verbatim>\<open>ValueError\<close> on a string it cannot parse.
\<close>

definition Treelist_init ::
  "(string \<Rightarrow> datetime option) \<Rightarrow> json \<Rightarrow> json \<Rightarrow> json \<Rightarrow> json \<Rightarrow> json \<Rightarrow> json \<Rightarrow> json \<Rightarrow> json
     \<Rightarrow> json \<Rightarrow> json \<Rightarrow> error + Treelist" where
  "Treelist_init fromiso ident name description method dataset_id status created_on
       summary fuelgrids version =
     (case created_on of
        JStr s \<Rightarrow>
          (case fromiso s of
             None \<Rightarrow> Inl (ValueError ''Invalid isoformat string'')
           | Some t \<Rightarrow>
               Inr \<lparr>tl_id = ident, tl_name = name, tl_description = description,
                    tl_method = method, tl_dataset_id = dataset_id, tl_status = status,
                    tl_created_on = t, tl_summary = summary, tl_fuelgrids = fuelgrids,
                    tl_version = version\<rparr>)
      | _ \<Rightarrow> Inl TypeError)"

text \<open>The parameters of \<^verbatim>\<open>Treelist.__init__\<close>; none has a default value.\<close>

definition Treelist_params :: "string list" where
  "Treelist_params =
     [''id'', ''name'', ''description'', ''method'', ''dataset_id'', ''status'',
      ''created_on'', ''summary'', ''fuelgrids'', ''version'']"

text \<open>
  The call \<^verbatim>\<open>Treelist(**obj)\<close>. The operand of \<^verbatim>\<open>**\<close> must be a mapping; a key that is
  no parameter of the constructor is an unexpected keyword argument; a parameter without a key
  is a missing required argument. Each of the three raises \<^verbatim>\<open>TypeError\<close>.
\<close>

definition Treelist_kwargs :: "(string \<Rightarrow> datetime option) \<Rightarrow> json \<Rightarrow> error + Treelist" where
  "Treelist_kwargs fromiso obj =
     (case obj of
        JObj kv \<Rightarrow>
          if \<not> list_all (\<lambda>k. k \<in> set Treelist_params) (map fst kv) then Inl TypeError
          else
            (case (map_of kv ''id'', map_of kv ''name'', map_of kv ''description'',
                   map_of kv ''method'', map_of kv ''dataset_id'', map_of kv ''status'',
                   map_of kv ''created_on'', map_of kv ''summary'', map_of kv ''fuelgrids'',
                   map_of kv ''version'') of
               (Some a, Some b, Some c, Some d, Some e, Some f, Some g, Some h, Some i, Some j) \<Rightarrow>
                 Treelist_init fromiso a b c d e f g h i j
             | _ \<Rightarrow> Inl TypeError)
      | _ \<Rightarrow> Inl TypeError)"

text \<open>
  The comprehension \<^verbatim>\<open>[Treelist(**treelist) for treelist in xs]\<close>: the first element
  whose construction raises ends it.
\<close>

fun Treelist_list :: "(string \<Rightarrow> datetime option) \<Rightarrow> json list \<Rightarrow> error + Treelist list" where
  "Treelist_list fromiso [] = Inr []"
| "Treelist_list fromiso (x # xs) =
     (case Treelist_kwargs fromiso x of
        Inl e \<Rightarrow> Inl e
      | Inr t \<Rightarrow>
          (case Treelist_list fromiso xs of
             Inl e \<Rightarrow> Inl e
           | Inr ts \<Rightarrow> Inr (t # ts)))"

text \<open>
  \<^verbatim>\<open>[Treelist(**treelist) for treelist in response.json()["treelists"]]\<close>. Subscripting
  with a string works on a dict only. Iterating a list yields its elements, a dict its keys,
  a string its characters; the other values are not iterable.
\<close>

definition Treelist_listing :: "(string \<Rightarrow> datetime option) \<Rightarrow> json \<Rightarrow> error + Treelist list" where
  "Treelist_listing fromiso body =
     (case body of
        JObj kv \<Rightarrow>
          (case map_of kv ''treelists'' of
             None \<Rightarrow> Inl (KeyError ''treelists'')
           | Some (JArr xs) \<Rightarrow> Treelist_list fromiso xs
           | Some (JObj kv') \<Rightarrow> Treelist_list fromiso (map (\<lambda>p. JStr (fst p)) kv')
           | Some (JStr s) \<Rightarrow> Treelist_list fromiso (map (\<lambda>c. JStr [c]) s)
           | Some _ \<Rightarrow> Inl TypeError)
      | _ \<Rightarrow> Inl TypeError)"

section \<open>The HTTP session\<close>

text \<open>
  \<^verbatim>\<open>SESSION\<close> and \<^verbatim>\<open>API_URL\<close> are imported from the package and configured
  elsewhere. A request is what a call of \<^verbatim>\<open>SESSION.get\<close>, \<^verbatim>\<open>post\<close>,
  \<^verbatim>\<open>patch\<close>, \<^verbatim>\<open>put\<close> or \<^verbatim>\<open>delete\<close> passes on: the URL, the
  \<^verbatim>\<open>data\<close> payload (the value given to \<^verbatim>\<open>json.dumps\<close>) and the
  \<^verbatim>\<open>files\<close> (part name and file content). A response is read through
  \<^verbatim>\<open>status_code\<close> and \<^verbatim>\<open>json()\<close> only.
\<close>

datatype http_method = GET | POST | PATCH | PUT | DELETE

record request =
  http_method :: http_method
  url :: string
  data :: "json option"
  files :: "(string \<times> string) list"

record response =
  status_code :: int
  json :: json

text \<open>
  The collaborators of the module. The remote service answers a request depending on the
  requests it has received before; \<open>fromisoformat\<close> is the parser of the standard library.
\<close>

record env =
  API_URL :: string
  SESSION :: "request list \<Rightarrow> request \<Rightarrow> response"
  fromisoformat :: "string \<Rightarrow> datetime option"

text \<open>
  The state that the operations change is the sequence of requests sent so far. Every
  operation takes it and returns it, next to the value it returns or the exception it raises.
\<close>

type_synonym 'a outcome = "(error + 'a) \<times> request list"

definition send :: "env \<Rightarrow> request \<Rightarrow> request list \<Rightarrow> response \<times> request list" where
  "send env req sent = (SESSION env sent req, sent @ [req])"

text \<open>
  A pandas \<^verbatim>\<open>DataFrame\<close>, represented by the text that
  \<^verbatim>\<open>to_csv(path, index=False)\<close> writes.
\<close>

datatype DataFrame = DataFrame (to_csv: string)

section \<open>The endpoints\<close>

definition create_treelist ::
  "env \<Rightarrow> string \<Rightarrow> string \<Rightarrow> string \<Rightarrow> string \<Rightarrow> request list \<Rightarrow> Treelist outcome" where
  "create_treelist env dataset_id name description method sent =
     (let payload = JObj [(''dataset_id'', JStr dataset_id), (''name'', JStr name),
                          (''description'', JStr description), (''method'', JStr method)];
          endpoint_url = API_URL env @ ''/treelists'';
          (response, sent') =
             send env \<lparr>http_method = POST, url = endpoint_url, data = Some payload, files = []\<rparr> sent
      in if status_code response \<noteq> 201 then (Inl (HTTPError (json response)), sent')
         else (Treelist_kwargs (fromisoformat env) (json response), sent'))"

definition get_treelist :: "env \<Rightarrow> string \<Rightarrow> string \<Rightarrow> request list \<Rightarrow> Treelist outcome" where
  "get_treelist env treelist_id units sent =
     (if units \<notin> set [''metric'', ''imperial'']
      then (Inl (ValueError ''units must be 'metric' or 'imperial' ''), sent)
      else
        let endpoint_url = API_URL env @ ''/treelists/'' @ treelist_id @ ''?units='' @ units;
            (response, sent') =
               send env \<lparr>http_method = GET, url = endpoint_url, data = None, files = []\<rparr> sent
        in if status_code response \<noteq> 200 then (Inl (HTTPError (json response)), sent')
           else (Treelist_kwargs (fromisoformat env) (json response), sent'))"

text \<open>\<^verbatim>\<open>if dataset_id:\<close> holds for a string that is given and not empty.\<close>

definition truthy :: "string option \<Rightarrow> bool" where
  "truthy x = (case x of None \<Rightarrow> False | Some s \<Rightarrow> s \<noteq> [])"

definition list_treelists :: "env \<Rightarrow> string option \<Rightarrow> request list \<Rightarrow> Treelist list outcome" where
  "list_treelists env dataset_id sent =
     (let endpoint_url =
            (if truthy dataset_id then API_URL env @ ''/treelists?dataset_id='' @ the dataset_id
             else API_URL env @ ''/treelists'');
          (response, sent') =
             send env \<lparr>http_method = GET, url = endpoint_url, data = None, files = []\<rparr> sent
      in if status_code response \<noteq> 200 then (Inl (HTTPError (json response)), sent')
         else (Treelist_listing (fromisoformat env) (json response), sent'))"

definition update_treelist ::
  "env \<Rightarrow> string \<Rightarrow> string option \<Rightarrow> string option \<Rightarrow> request list \<Rightarrow> Treelist outcome" where
  "update_treelist env treelist_id name description sent =
     (if name = None \<and> description = None
      then (Inl (ValueError ''name or description must be provided''), sent)
      else
        let payload_dict = [];
            payload_dict =
              (if truthy name then payload_dict @ [(''name'', JStr (the name))] else payload_dict);
            payload_dict =
              (if truthy description
               then payload_dict @ [(''description'', JStr (the description))] else payload_dict);
            payload = JObj payload_dict;
            endpoint_url = API_URL env @ ''/treelists/'' @ treelist_id;
            (response, sent') =
               send env \<lparr>http_method = PATCH, url = endpoint_url, data = Some payload, files = []\<rparr>
                 sent
        in if status_code response \<noteq> 200 then (Inl (HTTPError (json response)), sent')
           else (Treelist_kwargs (fromisoformat env) (json response), sent'))"

text \<open>
  \<^verbatim>\<open>update_treelist_data\<close> never reads \<^verbatim>\<open>filename\<close> after the first test. It
  calls \<^verbatim>\<open>data.to_csv\<close> whatever \<^verbatim>\<open>data\<close> is, and on \<^verbatim>\<open>None\<close> that
  attribute lookup raises \<^verbatim>\<open>AttributeError\<close> before \<^verbatim>\<open>SESSION.put\<close> is reached.
\<close>

definition update_treelist_data ::
  "env \<Rightarrow> string \<Rightarrow> string option \<Rightarrow> DataFrame option \<Rightarrow> request list \<Rightarrow> Treelist outcome" where
  "update_treelist_data env treelist_id filename frame sent =
     (if filename = None \<and> frame = None
      then (Inl (ValueError ''filename or data must be provided''), sent)
      else
        let endpoint_url = API_URL env @ ''/treelists/'' @ treelist_id @ ''/data''
        in (case frame of
              None \<Rightarrow> (Inl AttributeError, sent)
            | Some df \<Rightarrow>
                let file = to_csv df;
                    (response, sent') =
                       send env \<lparr>http_method = PUT, url = endpoint_url, data = None,
                                 files = [(''file'', file)]\<rparr> sent
                in if status_code response \<noteq> 200 then (Inl (HTTPError (json response)), sent')
                   else (Treelist_kwargs (fromisoformat env) (json response), sent')))"

text \<open>\<^verbatim>\<open>delete_treelist\<close> has the parameter \<^verbatim>\<open>dataset_id\<close> and never reads it.\<close>

definition delete_treelist ::
  "env \<Rightarrow> string \<Rightarrow> string option \<Rightarrow> request list \<Rightarrow> Treelist list outcome" where
  "delete_treelist env treelist_id dataset_id sent =
     (let endpoint_url = API_URL env @ ''/treelists/'' @ treelist_id;
          (response, sent') =
             send env \<lparr>http_method = DELETE, url = endpoint_url, data = None, files = []\<rparr> sent
      in if status_code response \<noteq> 200 then (Inl (HTTPError (json response)), sent')
         else (Treelist_listing (fromisoformat env) (json response), sent'))"

definition delete_all_treelists ::
  "env \<Rightarrow> string option \<Rightarrow> request list \<Rightarrow> Treelist list outcome" where
  "delete_all_treelists env dataset_id sent =
     (let endpoint_url =
            (if truthy dataset_id then API_URL env @ ''/treelists?dataset_id='' @ the dataset_id
             else API_URL env @ ''/treelists'');
          (response, sent') =
             send env \<lparr>http_method = DELETE, url = endpoint_url, data = None, files = []\<rparr> sent
      in if status_code response \<noteq> 200 then (Inl (HTTPError (json response)), sent')
         else (Treelist_listing (fromisoformat env) (json response), sent'))"

section \<open>Waiting for a resource\<close>

text \<open>
  The loop of \<^verbatim>\<open>tests/test_fuelgrid.py\<close>
  \<^verbatim>\<open>
  while fuelgrid.status != "Finished":
      fuelgrid = get_fuelgrid(fuelgrid.id)
      sleep(2)
  \<close>
  It has no bound, so it is a partial function and \<open>None\<close> stands for a run that never
  ends. \<^verbatim>\<open>get_fuelgrid\<close> and the class of its result are defined outside the files at
  hand: the loop takes the fetching operation \<open>get\<close> and the reader \<open>status\<close> of the
  attribute as parameters. \<^verbatim>\<open>sleep(2)\<close> lets time pass and changes neither the record nor
  the requests sent.
\<close>

partial_function (option) poll_while_not_finished ::
  "(request list \<Rightarrow> 'r outcome) \<Rightarrow> ('r \<Rightarrow> json) \<Rightarrow> 'r \<Rightarrow> request list \<Rightarrow> 'r outcome option" where
  "poll_while_not_finished get status r sent =
     (if status r \<noteq> JStr ''Finished''
      then (case get sent of
              (Inl e, sent') \<Rightarrow> Some (Inl e, sent')
            | (Inr r', sent') \<Rightarrow> poll_while_not_finished get status r' sent')
      else Some (Inr r, sent))"

text \<open>
  The same test fetches the resource once before the loop:
  \<^verbatim>\<open>
  fuelgrid = get_fuelgrid(temp_id)
  while fuelgrid.status != "Finished": ...
  \<close>
\<close>

definition get_then_poll ::
  "(request list \<Rightarrow> 'r outcome) \<Rightarrow> ('r \<Rightarrow> json) \<Rightarrow> request list \<Rightarrow> 'r outcome option" where
  "get_then_poll get status sent =
     (case get sent of
        (Inl e, sent') \<Rightarrow> Some (Inl e, sent')
      | (Inr r, sent') \<Rightarrow> poll_while_not_finished get status r sent')"

section \<open>The contract of the specification\<close>

text \<open>
  The record that the specification calls the decoded resource, in its own words: the object
  has the fields of a treelist, \<open>created_on\<close> is ISO-8601 text and is held as the parsed
  time, every other field is held as it came. This definition does not mention the code.
\<close>

definition spec_decoded_treelist :: "(string \<Rightarrow> datetime option) \<Rightarrow> json \<Rightarrow> Treelist \<Rightarrow> bool" where
  "spec_decoded_treelist fromiso obj t =
     (case obj of
        JObj kv \<Rightarrow>
          set (map fst kv) =
            {''id'', ''name'', ''description'', ''method'', ''dataset_id'', ''status'',
             ''created_on'', ''summary'', ''fuelgrids'', ''version''} \<and>
          (case map_of kv ''created_on'' of
             Some (JStr s) \<Rightarrow>
               (case fromiso s of
                  Some w \<Rightarrow>
                    map_of kv ''id'' = Some (tl_id t) \<and> map_of kv ''name'' = Some (tl_name t) \<and>
                    map_of kv ''description'' = Some (tl_description t) \<and>
                    map_of kv ''method'' = Some (tl_method t) \<and>
                    map_of kv ''dataset_id'' = Some (tl_dataset_id t) \<and>
                    map_of kv ''status'' = Some (tl_status t) \<and> tl_created_on t = w \<and>
                    map_of kv ''summary'' = Some (tl_summary t) \<and>
                    map_of kv ''fuelgrids'' = Some (tl_fuelgrids t) \<and>
                    map_of kv ''version'' = Some (tl_version t)
                | None \<Rightarrow> False)
           | _ \<Rightarrow> False)
      | _ \<Rightarrow> False)"

text \<open>
  The decoded listing: the body is an object whose \<open>treelists\<close> entry is an array, and the
  sequence holds the decoded record of each element, in the order of the array.
\<close>

definition spec_decoded_treelists ::
  "(string \<Rightarrow> datetime option) \<Rightarrow> json \<Rightarrow> Treelist list \<Rightarrow> bool" where
  "spec_decoded_treelists fromiso body ts =
     (case body of
        JObj kv \<Rightarrow>
          (case map_of kv ''treelists'' of
             Some (JArr xs) \<Rightarrow> list_all2 (spec_decoded_treelist fromiso) xs ts
           | _ \<Rightarrow> False)
      | _ \<Rightarrow> False)"

text \<open>
  The contract of an operation for its request: the request is sent once; the operation fails
  with a RequestError that carries the decoded error body exactly when the status of the
  response is not the documented success code; on the success code, a body that decodes to a
  resource makes the operation return that resource. \<open>out\<close> is what the operation returned
  together with the requests sent.
\<close>

definition spec_request_contract ::
  "int \<Rightarrow> (json \<Rightarrow> 'a \<Rightarrow> bool) \<Rightarrow> request \<Rightarrow> response \<Rightarrow> request list \<Rightarrow> 'a outcome \<Rightarrow> bool" where
  "spec_request_contract success decoded req resp sent out \<longleftrightarrow>
     snd out = sent @ [req] \<and>
     ((\<exists>body. fst out = Inl (HTTPError body)) \<longleftrightarrow> status_code resp \<noteq> success) \<and>
     (status_code resp \<noteq> success \<longrightarrow> fst out = Inl (HTTPError (json resp))) \<and>
     (status_code resp = success \<longrightarrow> (\<forall>x. decoded (json resp) x \<longrightarrow> fst out = Inr x))"

text \<open>
  The service answers the successive calls of \<open>get\<close> with the given records: each call
  sends the request paired with the record and returns the record.
\<close>

fun answers :: "(request list \<Rightarrow> 'r outcome) \<Rightarrow> request list \<Rightarrow> (request \<times> 'r) list \<Rightarrow> bool" where
  "answers get sent [] = True"
| "answers get sent ((q, r) # qrs) = (get sent = (Inr r, sent @ [q]) \<and> answers get (sent @ [q]) qrs)"

section \<open>A stub of the service for the examples\<close>

text \<open>
  The examples run the operations against a service that answers from a script: the
  \<open>n\<close>-th request gets the \<open>n\<close>-th response, and the last response again once the script
  is used up. Their parser knows one timestamp.
\<close>

definition scripted :: "response list \<Rightarrow> request list \<Rightarrow> request \<Rightarrow> response" where
  "scripted script sent req = script ! min (length sent) (length script - 1)"

definition example_fromisoformat :: "string \<Rightarrow> datetime option" where
  "example_fromisoformat s =
     (if s = ''2023-06-01T12:30:00''
      then Some \<lparr>year = 2023, month = 6, day = 1, hour = 12, minute = 30, second = 0,
                 microsecond = 0\<rparr>
      else None)"

definition example_env :: "response list \<Rightarrow> env" where
  "example_env script =
     \<lparr>API_URL = ''https://api.test'', SESSION = scripted script,
      fromisoformat = example_fromisoformat\<rparr>"

definition example_fields :: "string \<Rightarrow> string \<Rightarrow> string \<Rightarrow> (string \<times> json) list" where
  "example_fields ident dataset status =
     [(''id'', JStr ident), (''name'', JStr ''trees''), (''description'', JStr ''plot A''),
      (''method'', JStr ''random''), (''dataset_id'', JStr dataset), (''status'', JStr status),
      (''created_on'', JStr ''2023-06-01T12:30:00''), (''summary'', JObj []),
      (''fuelgrids'', JArr [JStr ''f1'', JStr ''f2'']), (''version'', JStr ''0.1'')]"

definition example_treelist :: "string \<Rightarrow> string \<Rightarrow> string \<Rightarrow> Treelist" where
  "example_treelist ident dataset status =
     \<lparr>tl_id = JStr ident, tl_name = JStr ''trees'', tl_description = JStr ''plot A'',
      tl_method = JStr ''random'', tl_dataset_id = JStr dataset, tl_status = JStr status,
      tl_created_on = \<lparr>year = 2023, month = 6, day = 1, hour = 12, minute = 30, second = 0,
                        microsecond = 0\<rparr>,
      tl_summary = JObj [], tl_fuelgrids = JArr [JStr ''f1'', JStr ''f2''],
      tl_version = JStr ''0.1''\<rparr>"

definition ok :: "json \<Rightarrow> response" where
  "ok body = \<lparr>status_code = 200, json = body\<rparr>"

section \<open>Construction of a Treelist\<close>

lemma map_of_Some_key: "map_of kv k = Some v \<Longrightarrow> k \<in> set (map fst kv)"
  by (auto dest: map_of_SomeD intro: rev_image_eqI)

lemma Treelist_init_not_HTTPError: "Treelist_init fi a b c d e f g h i j \<noteq> Inl (HTTPError x)"
  by (simp add: Treelist_init_def split: json.splits option.splits)

lemma Treelist_kwargs_not_HTTPError: "Treelist_kwargs fi obj \<noteq> Inl (HTTPError x)"
  by (simp add: Treelist_kwargs_def Treelist_init_not_HTTPError split: json.splits option.splits)

lemma Treelist_list_not_HTTPError: "Treelist_list fi xs \<noteq> Inl (HTTPError x)"
  by (induction xs) (auto simp: Treelist_kwargs_not_HTTPError split: sum.splits)

lemma Treelist_listing_not_HTTPError: "Treelist_listing fi body \<noteq> Inl (HTTPError x)"
  by (simp add: Treelist_listing_def Treelist_list_not_HTTPError split: json.splits option.splits)

lemma Treelist_kwargs_Inr_iff:
  "Treelist_kwargs fi obj = Inr t \<longleftrightarrow>
     (\<exists>kv a b c d e f s h i j w.
        obj = JObj kv \<and> set (map fst kv) = set Treelist_params \<and>
        map_of kv ''id'' = Some a \<and> map_of kv ''name'' = Some b \<and>
        map_of kv ''description'' = Some c \<and> map_of kv ''method'' = Some d \<and>
        map_of kv ''dataset_id'' = Some e \<and> map_of kv ''status'' = Some f \<and>
        map_of kv ''created_on'' = Some (JStr s) \<and> map_of kv ''summary'' = Some h \<and>
        map_of kv ''fuelgrids'' = Some i \<and> map_of kv ''version'' = Some j \<and>
        fi s = Some w \<and>
        t = \<lparr>tl_id = a, tl_name = b, tl_description = c, tl_method = d, tl_dataset_id = e,
             tl_status = f, tl_created_on = w, tl_summary = h, tl_fuelgrids = i,
             tl_version = j\<rparr>)"
  (is "?L \<longleftrightarrow> ?R")
proof
  assume L: ?L
  then obtain kv where obj: "obj = JObj kv"
    by (cases obj) (simp_all add: Treelist_kwargs_def)
  from L obj have sub: "set (map fst kv) \<subseteq> set Treelist_params"
    by (auto simp: Treelist_kwargs_def list_all_iff split: if_splits)
  from L obj sub obtain a b c d e f g h i j where
    args: "map_of kv ''id'' = Some a" "map_of kv ''name'' = Some b"
      "map_of kv ''description'' = Some c" "map_of kv ''method'' = Some d"
      "map_of kv ''dataset_id'' = Some e" "map_of kv ''status'' = Some f"
      "map_of kv ''created_on'' = Some g" "map_of kv ''summary'' = Some h"
      "map_of kv ''fuelgrids'' = Some i" "map_of kv ''version'' = Some j"
    and init: "Treelist_init fi a b c d e f g h i j = Inr t"
    by (auto simp: Treelist_kwargs_def list_all_iff split: if_splits option.splits)
  from args have "set Treelist_params \<subseteq> set (map fst kv)"
    unfolding Treelist_params_def by (auto dest!: map_of_Some_key)
  with sub have keys: "set (map fst kv) = set Treelist_params" by blast
  from init obtain s w where "g = JStr s" "fi s = Some w"
    and "t = \<lparr>tl_id = a, tl_name = b, tl_description = c, tl_method = d, tl_dataset_id = e,
             tl_status = f, tl_created_on = w, tl_summary = h, tl_fuelgrids = i,
             tl_version = j\<rparr>"
    by (auto simp: Treelist_init_def split: json.splits option.splits)
  with obj keys args show ?R by blast
next
  assume ?R
  then show ?L
    by (auto simp: Treelist_kwargs_def Treelist_init_def list_all_iff)
qed

lemma example_decodes:
  "Treelist_kwargs example_fromisoformat (JObj (example_fields ident dataset status)) =
     Inr (example_treelist ident dataset status)"
  by (simp add: Treelist_kwargs_def Treelist_init_def Treelist_params_def example_fields_def
      example_treelist_def example_fromisoformat_def)

lemma Treelist_kwargs_ValueError:
  "Treelist_kwargs fi obj = Inl (ValueError m) \<Longrightarrow> m = ''Invalid isoformat string''"
  by (auto simp: Treelist_kwargs_def Treelist_init_def split: json.splits option.splits if_splits)

lemma Treelist_params_set:
  "set Treelist_params =
     {''id'', ''name'', ''description'', ''method'', ''dataset_id'', ''status'',
      ''created_on'', ''summary'', ''fuelgrids'', ''version''}"
  by (simp add: Treelist_params_def)

lemma Treelist_kwargs_decodes_D:
  assumes "Treelist_kwargs fi obj = Inr t"
  shows "spec_decoded_treelist fi obj t"
proof -
  from assms [unfolded Treelist_kwargs_Inr_iff] obtain kv a b c d e f s h i j w where
    "obj = JObj kv" "set (map fst kv) = set Treelist_params"
    "map_of kv ''id'' = Some a" "map_of kv ''name'' = Some b"
    "map_of kv ''description'' = Some c" "map_of kv ''method'' = Some d"
    "map_of kv ''dataset_id'' = Some e" "map_of kv ''status'' = Some f"
    "map_of kv ''created_on'' = Some (JStr s)" "map_of kv ''summary'' = Some h"
    "map_of kv ''fuelgrids'' = Some i" "map_of kv ''version'' = Some j"
    "fi s = Some w"
    "t = \<lparr>tl_id = a, tl_name = b, tl_description = c, tl_method = d, tl_dataset_id = e,
         tl_status = f, tl_created_on = w, tl_summary = h, tl_fuelgrids = i,
         tl_version = j\<rparr>"
    by blast
  then show ?thesis
    unfolding spec_decoded_treelist_def Treelist_params_set by simp
qed

lemma Treelist_kwargs_decodes_I:
  assumes d: "spec_decoded_treelist fi obj t"
  shows "Treelist_kwargs fi obj = Inr t"
proof -
  from d obtain kv where obj: "obj = JObj kv"
    by (cases obj) (simp_all add: spec_decoded_treelist_def)
  from d obj obtain c where c: "map_of kv ''created_on'' = Some c"
    by (cases "map_of kv ''created_on''") (simp_all add: spec_decoded_treelist_def)
  from d obj c obtain s where s: "c = JStr s"
    by (cases c) (simp_all add: spec_decoded_treelist_def)
  from d obj c s obtain w where w: "fi s = Some w"
    by (cases "fi s") (simp_all add: spec_decoded_treelist_def)
  from d have keys: "set (map fst kv) = set Treelist_params"
    unfolding spec_decoded_treelist_def Treelist_params_set obj by simp
  from d have fields: "map_of kv ''id'' = Some (tl_id t)" "map_of kv ''name'' = Some (tl_name t)"
      "map_of kv ''description'' = Some (tl_description t)"
      "map_of kv ''method'' = Some (tl_method t)"
      "map_of kv ''dataset_id'' = Some (tl_dataset_id t)"
      "map_of kv ''status'' = Some (tl_status t)" "tl_created_on t = w"
      "map_of kv ''summary'' = Some (tl_summary t)"
      "map_of kv ''fuelgrids'' = Some (tl_fuelgrids t)"
      "map_of kv ''version'' = Some (tl_version t)"
    unfolding spec_decoded_treelist_def obj by (simp_all add: c s w)
  have all: "list_all (\<lambda>k. k \<in> set Treelist_params) (map fst kv)"
    unfolding list_all_iff keys [symmetric] by simp
  have "Treelist_kwargs fi (JObj kv) =
      Treelist_init fi (tl_id t) (tl_name t) (tl_description t) (tl_method t) (tl_dataset_id t)
        (tl_status t) (JStr s) (tl_summary t) (tl_fuelgrids t) (tl_version t)"
    unfolding Treelist_kwargs_def using all fields c s by simp
  also have "\<dots> = Inr t"
    unfolding Treelist_init_def using w fields(7) by simp
  finally show ?thesis unfolding obj .
qed

lemma Treelist_kwargs_decodes:
  "Treelist_kwargs fi obj = Inr t \<longleftrightarrow> spec_decoded_treelist fi obj t"
  using Treelist_kwargs_decodes_D Treelist_kwargs_decodes_I by blast

lemma Treelist_list_Inr_D:
  "Treelist_list fi xs = Inr ts \<Longrightarrow> list_all2 (\<lambda>x t. Treelist_kwargs fi x = Inr t) xs ts"
proof (induction xs arbitrary: ts)
  case Nil
  then show ?case by simp
next
  case (Cons x xs)
  from Cons.prems obtain t us where "Treelist_kwargs fi x = Inr t" "Treelist_list fi xs = Inr us"
    "ts = t # us"
    by (auto split: sum.splits)
  with Cons.IH show ?case by simp
qed

lemma Treelist_list_Inr_I:
  "list_all2 (\<lambda>x t. Treelist_kwargs fi x = Inr t) xs ts \<Longrightarrow> Treelist_list fi xs = Inr ts"
  by (induction rule: list_all2_induct) simp_all

lemma Treelist_list_Inr_iff:
  "Treelist_list fi xs = Inr ts \<longleftrightarrow> list_all2 (\<lambda>x t. Treelist_kwargs fi x = Inr t) xs ts"
  using Treelist_list_Inr_D Treelist_list_Inr_I by blast


section \<open>Replacing the data of a treelist\<close>

text \<open>
  C1. The claim: whenever the file path or the tabular data is supplied,
  \<^verbatim>\<open>update_treelist_data\<close> uploads the records and returns the updated treelist on a
  200 response, in particular when only a file path is supplied. The function does otherwise:
  with a file path and no data it raises \<^verbatim>\<open>AttributeError\<close> and sends nothing,
  whatever the path, the treelist and the service.
\<close>

theorem update_treelist_data_filename_only:
  "update_treelist_data env treelist_id (Some filename) None sent = (Inl AttributeError, sent)"
  by (simp add: update_treelist_data_def)

section \<open>Deleting a treelist\<close>

lemma delete_treelist_same_for_every_dataset_id:
  "delete_treelist env treelist_id dataset_id sent = delete_treelist env treelist_id None sent"
  by (simp add: delete_treelist_def)

text \<open>
  C2. The claim: \<^verbatim>\<open>delete_treelist(treelist_id, dataset_id)\<close> returns the remaining
  treelists restricted to the given dataset. The function does otherwise: the request carries
  no filter, and against a service that is left with a treelist of dataset \<open>d1\<close> and one of
  dataset \<open>d2\<close> the call with the filter \<open>d1\<close> returns both.
\<close>

theorem delete_treelist_filter_ignored:
  "delete_treelist
     (example_env [ok (JObj [(''treelists'',
         JArr [JObj (example_fields ''t2'' ''d1'' ''Finished''),
               JObj (example_fields ''t3'' ''d2'' ''Finished'')])])])
     ''t1'' (Some ''d1'') [] =
   (Inr [example_treelist ''t2'' ''d1'' ''Finished'', example_treelist ''t3'' ''d2'' ''Finished''],
    [\<lparr>http_method = DELETE, url = ''https://api.test/treelists/t1'', data = None, files = []\<rparr>])"
  by (simp add: delete_treelist_def send_def example_env_def scripted_def ok_def
      Treelist_listing_def example_decodes)

section \<open>Local checks of the arguments\<close>

text \<open>
  C6. For every units value other than "metric" and "imperial", \<^verbatim>\<open>get_treelist\<close>
  raises \<^verbatim>\<open>ValueError\<close> and the requests sent stay as they were; for "metric" and
  "imperial" it sends exactly one GET request, whose URL carries the units as a query
  parameter.
\<close>

theorem get_treelist_units:
  "(units \<notin> set [''metric'', ''imperial''] \<longrightarrow>
      get_treelist env treelist_id units sent =
        (Inl (ValueError ''units must be 'metric' or 'imperial' ''), sent)) \<and>
   (units \<in> set [''metric'', ''imperial''] \<longrightarrow>
      snd (get_treelist env treelist_id units sent) =
        sent @ [\<lparr>http_method = GET,
                 url = API_URL env @ ''/treelists/'' @ treelist_id @ ''?units='' @ units,
                 data = None, files = []\<rparr>])"
  by (simp add: get_treelist_def send_def Let_def)

theorem get_treelist_units_witness:
  "''bogus'' \<notin> set [''metric'', ''imperial''] \<and>
   get_treelist (example_env [ok JNull]) ''t1'' ''bogus'' [] =
     (Inl (ValueError ''units must be 'metric' or 'imperial' ''), []) \<and>
   ''imperial'' \<in> set [''metric'', ''imperial''] \<and>
   snd (get_treelist (example_env [ok JNull]) ''t1'' ''imperial'' []) =
     [\<lparr>http_method = GET, url = ''https://api.test/treelists/t1?units=imperial'',
       data = None, files = []\<rparr>]"
  using get_treelist_units [of "''bogus''" "example_env [ok JNull]" "''t1''" "[]"]
    get_treelist_units [of "''imperial''" "example_env [ok JNull]" "''t1''" "[]"]
  by (simp add: example_env_def)

text \<open>
  C10. The guard of \<^verbatim>\<open>update_treelist\<close> tests for \<^verbatim>\<open>None\<close> only: with the empty
  string for both the name and the description, the \<^verbatim>\<open>ValueError\<close> of the guard is not
  raised and one PATCH request is sent whose payload is the empty object.
\<close>

theorem update_treelist_empty_strings:
  "snd (update_treelist env treelist_id (Some '''') (Some '''') sent) =
     sent @ [\<lparr>http_method = PATCH, url = API_URL env @ ''/treelists/'' @ treelist_id,
              data = Some (JObj []), files = []\<rparr>] \<and>
   fst (update_treelist env treelist_id (Some '''') (Some '''') sent) \<noteq>
     Inl (ValueError ''name or description must be provided'')"
  by (auto simp add: update_treelist_def send_def Let_def truthy_def
      dest: Treelist_kwargs_ValueError)

section \<open>Failures of a request\<close>

text \<open>
  C7. With neither the name nor the description, \<^verbatim>\<open>update_treelist\<close> raises
  \<^verbatim>\<open>ValueError\<close> and the requests sent stay as they were. With at least one of them it
  sends exactly one PATCH request, whose payload holds the fields that are given and not empty,
  and it raises \<^verbatim>\<open>HTTPError\<close> with the body of the response when the status is not 200.
\<close>

theorem update_treelist_fields:
  "(name = None \<and> description = None \<longrightarrow>
      update_treelist env treelist_id name description sent =
        (Inl (ValueError ''name or description must be provided''), sent)) \<and>
   (\<not> (name = None \<and> description = None) \<longrightarrow>
      (let req = \<lparr>http_method = PATCH, url = API_URL env @ ''/treelists/'' @ treelist_id,
                  data = Some (JObj ((if truthy name then [(''name'', JStr (the name))] else []) @
                                     (if truthy description
                                      then [(''description'', JStr (the description))] else []))),
                  files = []\<rparr>
       in snd (update_treelist env treelist_id name description sent) = sent @ [req] \<and>
          (status_code (SESSION env sent req) \<noteq> 200 \<longrightarrow>
             fst (update_treelist env treelist_id name description sent) =
               Inl (HTTPError (json (SESSION env sent req))))))"
  by (simp add: update_treelist_def send_def Let_def)

theorem update_treelist_fields_witness:
  "update_treelist (example_env [\<lparr>status_code = 404, json = JStr ''no such treelist''\<rparr>])
      ''t1'' None None [] =
     (Inl (ValueError ''name or description must be provided''), []) \<and>
   update_treelist (example_env [\<lparr>status_code = 404, json = JStr ''no such treelist''\<rparr>])
      ''t1'' (Some ''oaks'') None [] =
     (Inl (HTTPError (JStr ''no such treelist'')),
      [\<lparr>http_method = PATCH, url = ''https://api.test/treelists/t1'',
        data = Some (JObj [(''name'', JStr ''oaks'')]), files = []\<rparr>])"
  using update_treelist_fields
      [of None None "example_env [\<lparr>status_code = 404, json = JStr ''no such treelist''\<rparr>]"
        "''t1''" "[]"]
    update_treelist_fields
      [of "Some ''oaks''" None "example_env [\<lparr>status_code = 404, json = JStr ''no such treelist''\<rparr>]"
        "''t1''" "[]"]
  by (simp add: example_env_def scripted_def truthy_def Let_def prod_eq_iff)

lemma Treelist_listing_decodes:
  "spec_decoded_treelists fi body ts \<Longrightarrow> Treelist_listing fi body = Inr ts"
  by (auto simp: spec_decoded_treelists_def Treelist_listing_def Treelist_list_Inr_iff
      Treelist_kwargs_decodes split: json.splits option.splits)


lemma spec_request_contractI:
  assumes "snd out = sent @ [req]"
    and "fst out = (if status_code resp \<noteq> success then Inl (HTTPError (json resp))
                    else decode (json resp))"
    and "\<And>x. decode (json resp) \<noteq> Inl (HTTPError x)"
    and "\<And>x. decoded (json resp) x \<Longrightarrow> decode (json resp) = Inr x"
  shows "spec_request_contract success decoded req resp sent out"
  using assms by (auto simp: spec_request_contract_def)

lemma create_treelist_contract:
  "req = \<lparr>http_method = POST, url = API_URL env @ ''/treelists'',
        data = Some (JObj [(''dataset_id'', JStr dataset_id), (''name'', JStr name),
                           (''description'', JStr description), (''method'', JStr method)]),
        files = []\<rparr> \<Longrightarrow>
   spec_request_contract 201 (spec_decoded_treelist (fromisoformat env)) req
           (SESSION env sent req) sent
           (create_treelist env dataset_id name description method sent)"
  by (rule spec_request_contractI [where decode = "Treelist_kwargs (fromisoformat env)"])
    (simp_all add: create_treelist_def send_def Let_def Treelist_kwargs_not_HTTPError
      Treelist_kwargs_decodes)

lemma get_treelist_contract:
  "units \<in> set [''metric'', ''imperial''] \<Longrightarrow>
   req = \<lparr>http_method = GET,
        url = API_URL env @ ''/treelists/'' @ treelist_id @ ''?units='' @ units,
        data = None, files = []\<rparr> \<Longrightarrow>
   spec_request_contract 200 (spec_decoded_treelist (fromisoformat env)) req
           (SESSION env sent req) sent (get_treelist env treelist_id units sent)"
  by (rule spec_request_contractI [where decode = "Treelist_kwargs (fromisoformat env)"])
    (simp_all add: get_treelist_def send_def Let_def Treelist_kwargs_not_HTTPError
      Treelist_kwargs_decodes)

lemma list_treelists_contract:
  "req = \<lparr>http_method = GET,
        url = (if truthy dataset_id then API_URL env @ ''/treelists?dataset_id='' @ the dataset_id
               else API_URL env @ ''/treelists''),
        data = None, files = []\<rparr> \<Longrightarrow>
   spec_request_contract 200 (spec_decoded_treelists (fromisoformat env)) req
           (SESSION env sent req) sent (list_treelists env dataset_id sent)"
  by (rule spec_request_contractI [where decode = "Treelist_listing (fromisoformat env)"])
    (simp_all add: list_treelists_def send_def Let_def Treelist_listing_not_HTTPError
      Treelist_listing_decodes)

lemma update_treelist_sends:
  assumes "\<not> (name = None \<and> description = None)"
    and "req = \<lparr>http_method = PATCH, url = API_URL env @ ''/treelists/'' @ treelist_id,
        data = Some (JObj ((if truthy name then [(''name'', JStr (the name))] else []) @
                           (if truthy description
                            then [(''description'', JStr (the description))] else []))),
        files = []\<rparr>"
  shows "update_treelist env treelist_id name description sent =
     (if status_code (SESSION env sent req) \<noteq> 200
      then Inl (HTTPError (json (SESSION env sent req)))
      else Treelist_kwargs (fromisoformat env) (json (SESSION env sent req)), sent @ [req])"
  using assms by (simp add: update_treelist_def send_def Let_def)

lemma update_treelist_contract:
  assumes "\<not> (name = None \<and> description = None)"
    and "req = \<lparr>http_method = PATCH, url = API_URL env @ ''/treelists/'' @ treelist_id,
        data = Some (JObj ((if truthy name then [(''name'', JStr (the name))] else []) @
                           (if truthy description
                            then [(''description'', JStr (the description))] else []))),
        files = []\<rparr>"
  shows "spec_request_contract 200 (spec_decoded_treelist (fromisoformat env)) req
           (SESSION env sent req) sent (update_treelist env treelist_id name description sent)"
  unfolding update_treelist_sends [OF assms]
  by (rule spec_request_contractI [where decode = "Treelist_kwargs (fromisoformat env)"])
    (simp_all add: Treelist_kwargs_not_HTTPError Treelist_kwargs_decodes)

lemma delete_treelist_contract:
  "req = \<lparr>http_method = DELETE, url = API_URL env @ ''/treelists/'' @ treelist_id,
        data = None, files = []\<rparr> \<Longrightarrow>
   spec_request_contract 200 (spec_decoded_treelists (fromisoformat env)) req
           (SESSION env sent req) sent (delete_treelist env treelist_id dataset_id sent)"
  by (rule spec_request_contractI [where decode = "Treelist_listing (fromisoformat env)"])
    (simp_all add: delete_treelist_def send_def Let_def Treelist_listing_not_HTTPError
      Treelist_listing_decodes)

lemma delete_all_treelists_contract:
  "req = \<lparr>http_method = DELETE,
        url = (if truthy dataset_id then API_URL env @ ''/treelists?dataset_id='' @ the dataset_id
               else API_URL env @ ''/treelists''),
        data = None, files = []\<rparr> \<Longrightarrow>
   spec_request_contract 200 (spec_decoded_treelists (fromisoformat env)) req
           (SESSION env sent req) sent (delete_all_treelists env dataset_id sent)"
  by (rule spec_request_contractI [where decode = "Treelist_listing (fromisoformat env)"])
    (simp_all add: delete_all_treelists_def send_def Let_def Treelist_listing_not_HTTPError
      Treelist_listing_decodes)


lemma scripted_singleton: "SESSION (example_env [r]) sent req = r"
  by (simp add: example_env_def scripted_def)

text \<open>
  C5, as the code has it. Each of create, get, list, update, delete and delete-all sends its
  request once and raises \<^verbatim>\<open>HTTPError\<close>, carrying the decoded body of the response,
  exactly when the status of the response differs from its success code: 201 for create, 200
  for the others. On the success code, a body that is a treelist object (for list, delete and
  delete-all: an object whose \<open>treelists\<close> array holds treelist objects) makes the operation
  return the decoded record (the decoded records, in order). The request meant for get and for
  update is the one sent once the local check of the arguments has passed.
\<close>

theorem request_errors_surface:
  "(\<exists>req. spec_request_contract 201 (spec_decoded_treelist (fromisoformat env)) req
             (SESSION env sent req) sent
             (create_treelist env dataset_id name description method sent)) \<and>
   (units \<in> set [''metric'', ''imperial''] \<longrightarrow>
      (\<exists>req. spec_request_contract 200 (spec_decoded_treelist (fromisoformat env)) req
                (SESSION env sent req) sent (get_treelist env treelist_id units sent))) \<and>
   (\<exists>req. spec_request_contract 200 (spec_decoded_treelists (fromisoformat env)) req
             (SESSION env sent req) sent (list_treelists env dsid sent)) \<and>
   (\<not> (new_name = None \<and> new_description = None) \<longrightarrow>
      (\<exists>req. spec_request_contract 200 (spec_decoded_treelist (fromisoformat env)) req
                (SESSION env sent req) sent
                (update_treelist env treelist_id new_name new_description sent))) \<and>
   (\<exists>req. spec_request_contract 200 (spec_decoded_treelists (fromisoformat env)) req
             (SESSION env sent req) sent (delete_treelist env treelist_id dsid sent)) \<and>
   (\<exists>req. spec_request_contract 200 (spec_decoded_treelists (fromisoformat env)) req
             (SESSION env sent req) sent (delete_all_treelists env dsid sent))"
proof (intro conjI impI)
  show "\<exists>req. spec_request_contract 201 (spec_decoded_treelist (fromisoformat env)) req
          (SESSION env sent req) sent
          (create_treelist env dataset_id name description method sent)"
    by (rule exI, rule create_treelist_contract [OF refl])
  show "\<exists>req. spec_request_contract 200 (spec_decoded_treelists (fromisoformat env)) req
          (SESSION env sent req) sent (list_treelists env dsid sent)"
    by (rule exI, rule list_treelists_contract [OF refl])
  show "\<exists>req. spec_request_contract 200 (spec_decoded_treelists (fromisoformat env)) req
          (SESSION env sent req) sent (delete_treelist env treelist_id dsid sent)"
    by (rule exI, rule delete_treelist_contract [OF refl])
  show "\<exists>req. spec_request_contract 200 (spec_decoded_treelists (fromisoformat env)) req
          (SESSION env sent req) sent (delete_all_treelists env dsid sent)"
    by (rule exI, rule delete_all_treelists_contract [OF refl])
next
  assume units: "units \<in> set [''metric'', ''imperial'']"
  show "\<exists>req. spec_request_contract 200 (spec_decoded_treelist (fromisoformat env)) req
          (SESSION env sent req) sent (get_treelist env treelist_id units sent)"
    by (rule exI, rule get_treelist_contract [OF units refl])
next
  assume fields: "\<not> (new_name = None \<and> new_description = None)"
  show "\<exists>req. spec_request_contract 200 (spec_decoded_treelist (fromisoformat env)) req
          (SESSION env sent req) sent
          (update_treelist env treelist_id new_name new_description sent)"
    by (rule exI, rule update_treelist_contract [OF fields refl])
qed

lemma example_spec_decoded:
  "spec_decoded_treelist example_fromisoformat (JObj (example_fields ident dataset status))
     (example_treelist ident dataset status)"
  using example_decodes by (simp only: Treelist_kwargs_decodes)

theorem request_errors_surface_witness:
  "''metric'' \<in> set [''metric'', ''imperial''] \<and>
   \<not> (Some ''oaks'' = None \<and> (None :: string option) = None) \<and>
   fst (create_treelist (example_env [\<lparr>status_code = 404, json = JStr ''not found''\<rparr>])
          ''d1'' ''trees'' ''plot A'' ''random'' []) = Inl (HTTPError (JStr ''not found'')) \<and>
   fst (get_treelist (example_env [\<lparr>status_code = 404, json = JStr ''not found''\<rparr>])
          ''t1'' ''metric'' []) = Inl (HTTPError (JStr ''not found'')) \<and>
   fst (update_treelist (example_env [\<lparr>status_code = 404, json = JStr ''not found''\<rparr>])
          ''t1'' (Some ''oaks'') None []) = Inl (HTTPError (JStr ''not found'')) \<and>
   fst (delete_all_treelists (example_env [\<lparr>status_code = 404, json = JStr ''not found''\<rparr>])
          None []) = Inl (HTTPError (JStr ''not found'')) \<and>
   spec_decoded_treelist example_fromisoformat (JObj (example_fields ''t1'' ''d1'' ''Finished''))
     (example_treelist ''t1'' ''d1'' ''Finished'') \<and>
   fst (get_treelist (example_env [ok (JObj (example_fields ''t1'' ''d1'' ''Finished''))])
          ''t1'' ''metric'' []) = Inr (example_treelist ''t1'' ''d1'' ''Finished'')"
proof -
  let ?E = "example_env [\<lparr>status_code = 404, json = JStr ''not found''\<rparr>]"
  let ?G = "example_env [ok (JObj (example_fields ''t1'' ''d1'' ''Finished''))]"
  have units: "''metric'' \<in> set [''metric'', ''imperial'']" by simp
  have fields: "\<not> (Some ''oaks'' = None \<and> (None :: string option) = None)" by simp
  have dec: "spec_decoded_treelist (fromisoformat ?G)
      (json (ok (JObj (example_fields ''t1'' ''d1'' ''Finished''))))
      (example_treelist ''t1'' ''d1'' ''Finished'')"
    by (simp add: example_env_def ok_def example_spec_decoded)
  note bad = request_errors_surface
    [of ?E "[]" "''d1''" "''trees''" "''plot A''" "''random''" "''metric''" "''t1''" None
      "Some ''oaks''" None]
  note good = request_errors_surface
    [of ?G "[]" "''d1''" "''trees''" "''plot A''" "''random''" "''metric''" "''t1''" None
      "Some ''oaks''" None]
  from bad units fields have
    "fst (create_treelist ?E ''d1'' ''trees'' ''plot A'' ''random'' []) =
       Inl (HTTPError (JStr ''not found''))"
    "fst (get_treelist ?E ''t1'' ''metric'' []) = Inl (HTTPError (JStr ''not found''))"
    "fst (update_treelist ?E ''t1'' (Some ''oaks'') None []) = Inl (HTTPError (JStr ''not found''))"
    "fst (delete_all_treelists ?E None []) = Inl (HTTPError (JStr ''not found''))"
    unfolding spec_request_contract_def scripted_singleton by auto
  moreover from good units obtain req where
    "spec_request_contract 200 (spec_decoded_treelist (fromisoformat ?G)) req
       (ok (JObj (example_fields ''t1'' ''d1'' ''Finished''))) []
       (get_treelist ?G ''t1'' ''metric'' [])"
    unfolding scripted_singleton by blast
  with dec have
    "fst (get_treelist ?G ''t1'' ''metric'' []) = Inr (example_treelist ''t1'' ''d1'' ''Finished'')"
    unfolding spec_request_contract_def by (simp add: ok_def)
  ultimately show ?thesis using units fields example_spec_decoded by blast
qed

text \<open>
  C5 as it was stated fails: the claim has every response with the success code return the
  decoded resource, and a 200 response whose body is \<open>null\<close> makes
  \<^verbatim>\<open>get_treelist\<close> raise \<^verbatim>\<open>TypeError\<close>.
\<close>

theorem success_code_with_malformed_body:
  "status_code (ok JNull) = 200 \<and>
   get_treelist (example_env [ok JNull]) ''t1'' ''metric'' [] =
     (Inl TypeError,
      [\<lparr>http_method = GET, url = ''https://api.test/treelists/t1?units=metric'',
        data = None, files = []\<rparr>])"
  by (simp add: get_treelist_def send_def example_env_def scripted_def ok_def Treelist_kwargs_def)


section \<open>What construction accepts\<close>

lemma Treelist_kwargs_keys_differ:
  assumes "set (map fst kv) \<noteq> set Treelist_params"
  shows "Treelist_kwargs fi (JObj kv) = Inl TypeError"
proof (cases "list_all (\<lambda>k. k \<in> set Treelist_params) (map fst kv)")
  case False
  then show ?thesis by (simp add: Treelist_kwargs_def)
next
  case True
  then have "set (map fst kv) \<subseteq> set Treelist_params" by (auto simp: list_all_iff)
  with assms obtain p where p: "p \<in> set Treelist_params" "p \<notin> set (map fst kv)" by blast
  then have none: "map_of kv p = None" by (simp add: map_of_eq_None_iff)
  from p(1) have "p = ''id'' \<or> p = ''name'' \<or> p = ''description'' \<or> p = ''method'' \<or>
      p = ''dataset_id'' \<or> p = ''status'' \<or> p = ''created_on'' \<or> p = ''summary'' \<or>
      p = ''fuelgrids'' \<or> p = ''version''"
    by (simp add: Treelist_params_def)
  with none True show ?thesis
    by (elim disjE) (simp_all add: Treelist_kwargs_def split: option.splits)
qed

text \<open>
  C3, as the code has it. Construction from a decoded JSON object performs no validation
  beyond type conversion, and it succeeds exactly when the keys of the object are exactly the
  ten parameters of the constructor and \<open>created_on\<close> is a string that the ISO parser
  accepts. The record then holds the parsed time and every other field as it came, the
  identifier list in its order. An object with an unknown extra field or without one of the
  fields makes construction raise \<^verbatim>\<open>TypeError\<close>.
\<close>

theorem Treelist_construction:
  "(Treelist_kwargs fi (JObj kv) = Inr t \<longleftrightarrow>
      set (map fst kv) = set Treelist_params \<and>
      (\<exists>s w. map_of kv ''created_on'' = Some (JStr s) \<and> fi s = Some w \<and>
         t = \<lparr>tl_id = the (map_of kv ''id''), tl_name = the (map_of kv ''name''),
              tl_description = the (map_of kv ''description''),
              tl_method = the (map_of kv ''method''),
              tl_dataset_id = the (map_of kv ''dataset_id''),
              tl_status = the (map_of kv ''status''), tl_created_on = w,
              tl_summary = the (map_of kv ''summary''),
              tl_fuelgrids = the (map_of kv ''fuelgrids''),
              tl_version = the (map_of kv ''version'')\<rparr>)) \<and>
   (set (map fst kv) \<noteq> set Treelist_params \<longrightarrow> Treelist_kwargs fi (JObj kv) = Inl TypeError)"
proof (intro conjI impI iffI)
  assume "Treelist_kwargs fi (JObj kv) = Inr t"
  then show "set (map fst kv) = set Treelist_params"
    and "\<exists>s w. map_of kv ''created_on'' = Some (JStr s) \<and> fi s = Some w \<and>
         t = \<lparr>tl_id = the (map_of kv ''id''), tl_name = the (map_of kv ''name''),
              tl_description = the (map_of kv ''description''),
              tl_method = the (map_of kv ''method''),
              tl_dataset_id = the (map_of kv ''dataset_id''),
              tl_status = the (map_of kv ''status''), tl_created_on = w,
              tl_summary = the (map_of kv ''summary''),
              tl_fuelgrids = the (map_of kv ''fuelgrids''),
              tl_version = the (map_of kv ''version'')\<rparr>"
    unfolding Treelist_kwargs_Inr_iff by auto
next
  assume R: "set (map fst kv) = set Treelist_params \<and>
      (\<exists>s w. map_of kv ''created_on'' = Some (JStr s) \<and> fi s = Some w \<and>
         t = \<lparr>tl_id = the (map_of kv ''id''), tl_name = the (map_of kv ''name''),
              tl_description = the (map_of kv ''description''),
              tl_method = the (map_of kv ''method''),
              tl_dataset_id = the (map_of kv ''dataset_id''),
              tl_status = the (map_of kv ''status''), tl_created_on = w,
              tl_summary = the (map_of kv ''summary''),
              tl_fuelgrids = the (map_of kv ''fuelgrids''),
              tl_version = the (map_of kv ''version'')\<rparr>)"
  then have keys: "set (map fst kv) = set Treelist_params" by blast
  have present: "\<exists>v. map_of kv p = Some v" if "p \<in> set Treelist_params" for p
    using that keys by (metis map_of_eq_None_iff not_Some_eq set_map)
  have "\<exists>v. map_of kv ''id'' = Some v" "\<exists>v. map_of kv ''name'' = Some v"
    "\<exists>v. map_of kv ''description'' = Some v" "\<exists>v. map_of kv ''method'' = Some v"
    "\<exists>v. map_of kv ''dataset_id'' = Some v" "\<exists>v. map_of kv ''status'' = Some v"
    "\<exists>v. map_of kv ''summary'' = Some v" "\<exists>v. map_of kv ''fuelgrids'' = Some v"
    "\<exists>v. map_of kv ''version'' = Some v"
    by (rule present, simp add: Treelist_params_def)+
  with R show "Treelist_kwargs fi (JObj kv) = Inr t"
    unfolding Treelist_kwargs_Inr_iff by auto
next
  assume "set (map fst kv) \<noteq> set Treelist_params"
  then show "Treelist_kwargs fi (JObj kv) = Inl TypeError"
    by (rule Treelist_kwargs_keys_differ)
qed

theorem Treelist_construction_witness:
  "Treelist_kwargs example_fromisoformat (JObj (example_fields ''t1'' ''d1'' ''Pending'')) =
     Inr (example_treelist ''t1'' ''d1'' ''Pending'') \<and>
   set (map fst (example_fields ''t1'' ''d1'' ''Pending'' @ [(''tags'', JArr [])])) \<noteq>
     set Treelist_params \<and>
   Treelist_kwargs example_fromisoformat
     (JObj (example_fields ''t1'' ''d1'' ''Pending'' @ [(''tags'', JArr [])])) = Inl TypeError"
proof -
  have "''tags'' \<notin> set Treelist_params" by (simp add: Treelist_params_def)
  then have differ:
    "set (map fst (example_fields ''t1'' ''d1'' ''Pending'' @ [(''tags'', JArr [])])) \<noteq>
       set Treelist_params"
    by auto
  have same: "set (map fst (example_fields ''t1'' ''d1'' ''Pending'')) = set Treelist_params"
    by (simp add: example_fields_def Treelist_params_def)
  have "Treelist_kwargs example_fromisoformat (JObj (example_fields ''t1'' ''d1'' ''Pending'')) =
     Inr (example_treelist ''t1'' ''d1'' ''Pending'')"
    using Treelist_construction
      [of example_fromisoformat "example_fields ''t1'' ''d1'' ''Pending''"
        "example_treelist ''t1'' ''d1'' ''Pending''"] same
    by (simp add: example_fields_def example_treelist_def example_fromisoformat_def)
  moreover have "Treelist_kwargs example_fromisoformat
     (JObj (example_fields ''t1'' ''d1'' ''Pending'' @ [(''tags'', JArr [])])) = Inl TypeError"
    using Treelist_construction
      [of example_fromisoformat "example_fields ''t1'' ''d1'' ''Pending'' @ [(''tags'', JArr [])]"]
      differ
    by blast
  ultimately show ?thesis using differ by blast
qed

text \<open>
  C3 as it was stated fails: the claim has an unknown extra field or a missing field default to
  empty rather than make construction fail. A treelist object with the extra field \<open>tags\<close>,
  and one without \<open>version\<close>, both raise \<^verbatim>\<open>TypeError\<close>.
\<close>

theorem Treelist_extra_or_missing_field:
  "Treelist_kwargs example_fromisoformat
     (JObj (example_fields ''t1'' ''d1'' ''Finished'' @ [(''tags'', JArr [])])) = Inl TypeError \<and>
   Treelist_kwargs example_fromisoformat
     (JObj (butlast (example_fields ''t1'' ''d1'' ''Finished''))) = Inl TypeError"
  by (simp add: Treelist_kwargs_def Treelist_params_def example_fields_def)


text \<open>
  C9. Decoding is deterministic: when construction from a JSON object succeeds, constructing
  from it twice yields records equal on every field, and each is the record that the
  specification calls the decoded resource of that object.
\<close>

theorem Treelist_decoding_deterministic:
  assumes "Treelist_kwargs fi obj = Inr t1" and "Treelist_kwargs fi obj = Inr t2"
  shows "tl_id t1 = tl_id t2 \<and> tl_name t1 = tl_name t2 \<and>
         tl_description t1 = tl_description t2 \<and> tl_method t1 = tl_method t2 \<and>
         tl_dataset_id t1 = tl_dataset_id t2 \<and> tl_status t1 = tl_status t2 \<and>
         tl_created_on t1 = tl_created_on t2 \<and> tl_summary t1 = tl_summary t2 \<and>
         tl_fuelgrids t1 = tl_fuelgrids t2 \<and> tl_version t1 = tl_version t2 \<and>
         spec_decoded_treelist fi obj t1 \<and> spec_decoded_treelist fi obj t2"
  using assms Treelist_kwargs_decodes_D [OF assms(1)] by simp

theorem Treelist_decoding_deterministic_witness:
  "Treelist_kwargs example_fromisoformat (JObj (example_fields ''t1'' ''d1'' ''Finished'')) =
     Inr (example_treelist ''t1'' ''d1'' ''Finished'') \<and>
   tl_id (example_treelist ''t1'' ''d1'' ''Finished'') =
     tl_id (example_treelist ''t1'' ''d1'' ''Finished'') \<and>
   spec_decoded_treelist example_fromisoformat (JObj (example_fields ''t1'' ''d1'' ''Finished''))
     (example_treelist ''t1'' ''d1'' ''Finished'')"
  using Treelist_decoding_deterministic [OF example_decodes example_decodes, of "''t1''" "''d1''" "''Finished''"]
    example_decodes [of "''t1''" "''d1''" "''Finished''"]
  by blast

section \<open>Listing\<close>





section \<open>Waiting until a resource is finished\<close>

lemma poll_while_not_finished_reaches:
  assumes "answers get sent qrs"
    and "\<forall>x \<in> set (butlast (r # map snd qrs)). status x \<noteq> JStr ''Finished''"
    and "status (last (r # map snd qrs)) = JStr ''Finished''"
  shows "poll_while_not_finished get status r sent =
           Some (Inr (last (r # map snd qrs)), sent @ map fst qrs)"
  using assms
proof (induction qrs arbitrary: r sent)
  case Nil
  then show ?case by (simp add: poll_while_not_finished.simps)
next
  case (Cons qr qrs)
  obtain q r' where qr: "qr = (q, r')" by (cases qr)
  from Cons.prems(1) qr have g: "get sent = (Inr r', sent @ [q])"
    and rest: "answers get (sent @ [q]) qrs" by simp_all
  from Cons.prems(2) have nf: "status r \<noteq> JStr ''Finished''" by simp
  from Cons.prems(2) qr
  have before: "\<forall>x \<in> set (butlast (r' # map snd qrs)). status x \<noteq> JStr ''Finished''" by simp
  from Cons.prems(3) qr have fin: "status (last (r' # map snd qrs)) = JStr ''Finished''" by simp
  have "poll_while_not_finished get status r' (sent @ [q]) =
          Some (Inr (last (r' # map snd qrs)), (sent @ [q]) @ map fst qrs)"
    by (rule Cons.IH [OF rest before fin])
  with g nf qr show ?case
    by (subst poll_while_not_finished.simps) simp
qed

lemma poll_while_not_finished_diverges:
  assumes srv: "\<And>s. \<exists>r' s'. get s = (Inr r', s') \<and> status r' \<noteq> JStr ''Finished''"
    and nf: "status r \<noteq> JStr ''Finished''"
  shows "poll_while_not_finished get status r sent = None"
proof (rule ccontr)
  assume "poll_while_not_finished get status r sent \<noteq> None"
  then obtain out where run: "poll_while_not_finished get status r sent = Some out" by auto
  have "status r \<noteq> JStr ''Finished'' \<longrightarrow>
        (\<forall>s. \<exists>r' s'. get s = (Inr r', s') \<and> status r' \<noteq> JStr ''Finished'') \<longrightarrow> False"
  proof (rule poll_while_not_finished.raw_induct
      [where P = "\<lambda>g st x s y. st x \<noteq> JStr ''Finished'' \<longrightarrow>
                    (\<forall>s. \<exists>r' s'. g s = (Inr r', s') \<and> st r' \<noteq> JStr ''Finished'') \<longrightarrow> False"])
    show "poll_while_not_finished get status r sent = Some out" by (fact run)
  next
    fix poll :: "(request list \<Rightarrow> 'a outcome) \<Rightarrow> ('a \<Rightarrow> json) \<Rightarrow> 'a \<Rightarrow> request list \<Rightarrow> 'a outcome option"
      and g st x s y
    assume IH: "\<And>g st x s y. poll g st x s = Some y \<Longrightarrow>
                  st x \<noteq> JStr ''Finished'' \<longrightarrow>
                  (\<forall>s. \<exists>r' s'. g s = (Inr r', s') \<and> st r' \<noteq> JStr ''Finished'') \<longrightarrow> False"
      and step: "(if st x \<noteq> JStr ''Finished''
                  then case g s of (Inl e, sent') \<Rightarrow> Some (Inl e, sent')
                       | (Inr r', sent') \<Rightarrow> poll g st r' sent'
                  else Some (Inr x, s)) = Some y"
    show "st x \<noteq> JStr ''Finished'' \<longrightarrow>
          (\<forall>s. \<exists>r' s'. g s = (Inr r', s') \<and> st r' \<noteq> JStr ''Finished'') \<longrightarrow> False"
    proof (intro impI)
      assume a: "st x \<noteq> JStr ''Finished''"
        and b: "\<forall>s. \<exists>r' s'. g s = (Inr r', s') \<and> st r' \<noteq> JStr ''Finished''"
      from b obtain r' s' where g: "g s = (Inr r', s')" and nf': "st r' \<noteq> JStr ''Finished''"
        by blast
      from step a g have "poll g st r' s' = Some y" by simp
      from IH[OF this] nf' b show False by blast
    qed
  qed
  with srv nf show False by blast
qed

text \<open>
  C4, as the code has it. The loop ends upon reading the status "Finished": when the
  successive get calls are answered with records of which the last, and only the last, has
  that status, the loop issues exactly one get call per record and returns the last one. For
  the statuses Pending, Pending, Finished these are 3 get calls. Every other status, "Error"
  included, makes the loop fetch again.
\<close>

theorem polling_ends_on_Finished:
  assumes "answers get sent qrs" and "qrs \<noteq> []"
    and "\<forall>x \<in> set (butlast (map snd qrs)). status x \<noteq> JStr ''Finished''"
    and "status (snd (last qrs)) = JStr ''Finished''"
  shows "get_then_poll get status sent = Some (Inr (snd (last qrs)), sent @ map fst qrs)"
proof -
  from assms(2) obtain q r rest where qrs: "qrs = (q, r) # rest" by (cases qrs) auto
  from assms(1) qrs have g: "get sent = (Inr r, sent @ [q])"
    and more: "answers get (sent @ [q]) rest" by simp_all
  from assms(3) qrs
  have before: "\<forall>x \<in> set (butlast (r # map snd rest)). status x \<noteq> JStr ''Finished''" by simp
  have eq: "last (r # map snd rest) = snd (last qrs)"
    unfolding qrs by (induction rest arbitrary: q r) auto
  from assms(4) have fin: "status (last (r # map snd rest)) = JStr ''Finished''"
    unfolding eq .
  have "poll_while_not_finished get status r (sent @ [q]) =
          Some (Inr (last (r # map snd rest)), (sent @ [q]) @ map fst rest)"
    by (rule poll_while_not_finished_reaches [OF more before fin])
  then show ?thesis unfolding eq using g qrs by (simp add: get_then_poll_def)
qed

theorem polling_ends_on_Finished_witness:
  "get_then_poll
     (get_treelist
        (example_env [ok (JObj (example_fields ''t1'' ''d1'' ''Pending'')),
                      ok (JObj (example_fields ''t1'' ''d1'' ''Pending'')),
                      ok (JObj (example_fields ''t1'' ''d1'' ''Finished''))])
        ''t1'' ''metric'')
     tl_status [] =
   Some (Inr (example_treelist ''t1'' ''d1'' ''Finished''),
         [\<lparr>http_method = GET, url = ''https://api.test/treelists/t1?units=metric'',
           data = None, files = []\<rparr>,
          \<lparr>http_method = GET, url = ''https://api.test/treelists/t1?units=metric'',
           data = None, files = []\<rparr>,
          \<lparr>http_method = GET, url = ''https://api.test/treelists/t1?units=metric'',
           data = None, files = []\<rparr>])"
proof -
  let ?E = "example_env [ok (JObj (example_fields ''t1'' ''d1'' ''Pending'')),
                         ok (JObj (example_fields ''t1'' ''d1'' ''Pending'')),
                         ok (JObj (example_fields ''t1'' ''d1'' ''Finished''))]"
  let ?q = "\<lparr>http_method = GET, url = ''https://api.test/treelists/t1?units=metric'',
             data = None, files = []\<rparr>"
  let ?qrs = "[(?q, example_treelist ''t1'' ''d1'' ''Pending''),
               (?q, example_treelist ''t1'' ''d1'' ''Pending''),
               (?q, example_treelist ''t1'' ''d1'' ''Finished'')]"
  have a: "answers (get_treelist ?E ''t1'' ''metric'') [] ?qrs"
    by (simp add: get_treelist_def send_def example_env_def scripted_def ok_def example_decodes)
  have b: "?qrs \<noteq> []" by simp
  have c: "\<forall>x \<in> set (butlast (map snd ?qrs)). tl_status x \<noteq> JStr ''Finished''"
    by (simp add: example_treelist_def)
  have d: "tl_status (snd (last ?qrs)) = JStr ''Finished''"
    by (simp add: example_treelist_def)
  from polling_ends_on_Finished [OF a b c d] show ?thesis by simp
qed

text \<open>
  C4 as it was stated fails: the claim has the loop end on the status "Error", after 2 calls
  for the statuses Pending, Error. Against a service that answers Pending and then Error, the
  loop reads Error and goes on fetching: it never returns.
\<close>

theorem polling_does_not_end_on_Error:
  "get_then_poll
     (get_treelist
        (example_env [ok (JObj (example_fields ''t1'' ''d1'' ''Pending'')),
                      ok (JObj (example_fields ''t1'' ''d1'' ''Error''))])
        ''t1'' ''metric'')
     tl_status [] = None"
proof -
  let ?E = "example_env [ok (JObj (example_fields ''t1'' ''d1'' ''Pending'')),
                         ok (JObj (example_fields ''t1'' ''d1'' ''Error''))]"
  let ?q = "\<lparr>http_method = GET, url = ''https://api.test/treelists/t1?units=metric'',
             data = None, files = []\<rparr>"
  have first: "get_treelist ?E ''t1'' ''metric'' [] =
      (Inr (example_treelist ''t1'' ''d1'' ''Pending''), [?q])"
    by (simp add: get_treelist_def send_def example_env_def scripted_def ok_def example_decodes)
  have later: "\<exists>r' s'. get_treelist ?E ''t1'' ''metric'' s = (Inr r', s') \<and>
      tl_status r' \<noteq> JStr ''Finished''" for s
  proof (cases s)
    case Nil
    with first show ?thesis by (simp add: example_treelist_def)
  next
    case (Cons x xs)
    then have "get_treelist ?E ''t1'' ''metric'' s =
        (Inr (example_treelist ''t1'' ''d1'' ''Error''), s @ [?q])"
      by (simp add: get_treelist_def send_def example_env_def scripted_def ok_def example_decodes)
    then show ?thesis by (simp add: example_treelist_def)
  qed
  have "poll_while_not_finished (get_treelist ?E ''t1'' ''metric'') tl_status
      (example_treelist ''t1'' ''d1'' ''Pending'') [?q] = None"
    by (rule poll_while_not_finished_diverges [OF later]) (simp add: example_treelist_def)
  with first show ?thesis by (simp add: get_then_poll_def)
qed


end
